theory Spec2Isabelle
  imports Main
begin

section \<open>Python values and library functions used by 3pub.py\<close>

text \<open>
  Python's unbounded integers are \<^typ>\<open>int\<close>. A Python \<open>str\<close> is a \<^typ>\<open>string\<close>;
  each \<^typ>\<open>char\<close> stands for one code point below 256. Every exception the modelled
  code can raise is a value of \<open>error\<close>, and a fallible function returns
  \<open>error + 'a\<close> with \<open>Inl\<close> for the raised exception.
\<close>

datatype error =
    KeyError | IndexError | AttributeError | UnboundLocalError | CursesError | BadZipFile

text \<open>\<open>xs[i]\<close>: a negative index counts from the end, out of range raises IndexError.\<close>

definition py_index :: "'a list \<Rightarrow> int \<Rightarrow> error + 'a" where
  "py_index xs i =
     (let n = int (length xs); j = (if i < 0 then i + n else i)
      in if 0 \<le> j \<and> j < n then Inr (xs ! nat j) else Inl IndexError)"

text \<open>\<open>xs[i] = v\<close>, with the same index rule.\<close>

definition py_setitem :: "'a list \<Rightarrow> int \<Rightarrow> 'a \<Rightarrow> error + 'a list" where
  "py_setitem xs i v =
     (let n = int (length xs); j = (if i < 0 then i + n else i)
      in if 0 \<le> j \<and> j < n then Inr (xs[nat j := v]) else Inl IndexError)"

text \<open>
  \<open>xs[a:b]\<close>: each bound is taken from the end when negative and then clipped into
  \<open>0..len(xs)\<close>; the slice is empty when the bounds cross. It never raises.
\<close>

definition slice_bound :: "nat \<Rightarrow> int \<Rightarrow> nat" where
  "slice_bound n i = (if i < 0 then nat (max 0 (i + int n)) else min n (nat i))"

definition py_slice :: "'a list \<Rightarrow> int \<Rightarrow> int \<Rightarrow> 'a list" where
  "py_slice xs a b =
     (let lo = slice_bound (length xs) a; hi = slice_bound (length xs) b
      in take (hi - lo) (drop lo xs))"

text \<open>\<open>s.split('\n')\<close>: the pieces between line feeds; the empty string gives \<open>['']\<close>.\<close>

fun split_nl :: "string \<Rightarrow> string list" where
  "split_nl [] = [[]]"
| "split_nl (c # cs) =
     (if c = CHR 0x0A then [] # split_nl cs
      else (case split_nl cs of [] \<Rightarrow> [[c]] | l # ls \<Rightarrow> (c # l) # ls))"

text \<open>
  \<open>str.isspace\<close> on the code points below 256, and \<open>s.strip()\<close>, which removes the
  white space at both ends.
\<close>

definition isspace :: "char \<Rightarrow> bool" where
  "isspace c = (of_char c \<in> {9, 10, 11, 12, 13, 28, 29, 30, 31, 32, 133, 160 :: nat})"

definition strip :: "string \<Rightarrow> string" where
  "strip s = rev (dropWhile isspace (rev (dropWhile isspace s)))"

text \<open>\<open>c.lower()\<close> on the code points below 256: A-Z and the Latin-1 capitals.\<close>

definition lower_char :: "char \<Rightarrow> char" where
  "lower_char c =
     (let n = (of_char c :: nat)
      in if (65 \<le> n \<and> n \<le> 90) \<or> (192 \<le> n \<and> n \<le> 222 \<and> n \<noteq> 215)
         then char_of (n + 32) else c)"

definition lower :: "string \<Rightarrow> string" where
  "lower s = map lower_char s"

text \<open>Truth value of an optional string: \<open>None\<close> and \<open>''\<close> are false.\<close>

fun truthy :: "string option \<Rightarrow> bool" where
  "truthy None = False"
| "truthy (Some s) = (s \<noteq> [])"

section \<open>textify: the text dump of an HTML snippet\<close>

text \<open>
  \<open>textify\<close> subclasses \<open>html.parser.HTMLParser\<close> of the standard library. The
  library's lexer is not part of the repository: a snippet is given here as the sequence of
  lexical items the lexer finds in it. \<open>Data\<close> is a run of character data that holds no
  reference, \<open>EntityRef name\<close> is \<open>&name;\<close>, \<open>CharRef name\<close> is \<open>&#name;\<close>; the tags carry
  their name and attribute list; comments, declarations and processing instructions carry
  their text.
\<close>

type_synonym tag_attrs = "(string \<times> string option) list"

datatype token =
    Data string
  | EntityRef string
  | CharRef string
  | StartTag string tag_attrs
  | EndTag string
  | StartEndTag string tag_attrs
  | Comment string
  | Decl string
  | PI string

datatype maxcol = Cols int | PlusInf

text \<open>The \<open>Writer\<close> object: the \<open>StringIO\<close> it writes to and the column limit it is given.\<close>

record Writer =
  fl :: string
  maxcol :: maxcol

definition add_data :: "Writer \<Rightarrow> string \<Rightarrow> Writer" where
  "add_data w d = w\<lparr>fl := fl w @ d\<rparr>"

text \<open>The handlers of \<open>Parser\<close>; its formatter is the \<open>Writer\<close>.\<close>

definition handle_starttag :: "Writer \<Rightarrow> string \<Rightarrow> tag_attrs \<Rightarrow> Writer" where
  "handle_starttag w tag attrs = w"

definition handle_endtag :: "Writer \<Rightarrow> string \<Rightarrow> Writer" where
  "handle_endtag w tag = w"

definition handle_data :: "Writer \<Rightarrow> string \<Rightarrow> Writer" where
  "handle_data w d = add_data w d"

definition handle_entityref :: "Writer \<Rightarrow> string \<Rightarrow> Writer" where
  "handle_entityref w name = handle_data w (''&'' @ name @ '';'')"

definition handle_charref :: "Writer \<Rightarrow> string \<Rightarrow> Writer" where
  "handle_charref w name = handle_data w (''&#'' @ name @ '';'')"

text \<open>
  What \<open>HTMLParser.feed\<close> and \<open>close\<close> call for one lexical item. With \<open>convert_charrefs\<close>
  set, the library passes the text between two tags through \<open>html.unescape\<close> and hands the
  result to \<open>handle_data\<close>; \<open>handle_entityref\<close> and \<open>handle_charref\<close> are then never
  called. \<open>html.unescape\<close> rewrites references and nothing else, so it is applied here to
  the reference items; it is the parameter \<open>unescape\<close>. Without \<open>convert_charrefs\<close> each
  reference goes to its handler. The inherited \<open>handle_startendtag\<close> calls
  \<open>handle_starttag\<close> and then \<open>handle_endtag\<close>; the inherited handlers of comments,
  declarations and processing instructions do nothing.
\<close>

fun goahead :: "(string \<Rightarrow> string) \<Rightarrow> bool \<Rightarrow> Writer \<Rightarrow> token \<Rightarrow> Writer" where
  "goahead unescape cc w (Data d) = handle_data w d"
| "goahead unescape cc w (EntityRef name) =
     (if cc then handle_data w (unescape (''&'' @ name @ '';''))
      else handle_entityref w name)"
| "goahead unescape cc w (CharRef name) =
     (if cc then handle_data w (unescape (''&#'' @ name @ '';''))
      else handle_charref w name)"
| "goahead unescape cc w (StartTag tag attrs) = handle_starttag w tag attrs"
| "goahead unescape cc w (EndTag tag) = handle_endtag w tag"
| "goahead unescape cc w (StartEndTag tag attrs) =
     handle_endtag (handle_starttag w tag attrs) tag"
| "goahead unescape cc w (Comment c) = w"
| "goahead unescape cc w (Decl c) = w"
| "goahead unescape cc w (PI c) = w"

definition feed :: "(string \<Rightarrow> string) \<Rightarrow> bool \<Rightarrow> Writer \<Rightarrow> token list \<Rightarrow> Writer" where
  "feed unescape cc w html_snippet = foldl (goahead unescape cc) w html_snippet"

text \<open>
  \<open>Parser.__init__\<close> calls \<open>super().__init__()\<close> with no argument, and
  \<open>HTMLParser.__init__\<close> has the keyword default \<open>convert_charrefs=True\<close>: the parser of
  \<open>textify\<close> runs with the flag set. The result is the content of the \<open>StringIO\<close>.
\<close>

definition convert_charrefs :: bool where
  "convert_charrefs = True"

definition textify :: "(string \<Rightarrow> string) \<Rightarrow> token list \<Rightarrow> int \<times> int \<Rightarrow> maxcol \<Rightarrow> string" where
  "textify unescape html_snippet img_size mc =
     fl (feed unescape convert_charrefs \<lparr>fl = [], maxcol = mc\<rparr> html_snippet)"

text \<open>The display width of each line of a text: one column for each character.\<close>

definition line_widths :: "string \<Rightarrow> nat list" where
  "line_widths s = map length (split_nl s)"

text \<open>
  The chapter view looks for image markers in each line it shows, with
  \<open>re.search(r'\[img="([^"]+)" "([^"]*)"\]', line)\<close>, and collects group 1. Neither
  group can hold a double quote, so a match at a position is unique: \<open>marker_at\<close> gives
  group 1 of the match that starts at the head of the text, \<open>img_search\<close> tries every
  position from the left.
\<close>

definition marker_at :: "string \<Rightarrow> string option" where
  "marker_at s =
     (if take 6 s = ''[img='' @ [CHR 0x22]
      then (let path = takeWhile (\<lambda>c. c \<noteq> CHR 0x22) (drop 6 s);
                r1 = drop (6 + length path) s;
                alt = takeWhile (\<lambda>c. c \<noteq> CHR 0x22) (drop 3 r1);
                r2 = drop (3 + length alt) r1
            in if path \<noteq> [] \<and> take 3 r1 = [CHR 0x22, CHR 0x20, CHR 0x22]
                  \<and> take 2 r2 = [CHR 0x22, CHR 0x5D]
               then Some path else None)
      else None)"

fun img_search :: "string \<Rightarrow> string option" where
  "img_search [] = None"
| "img_search (c # cs) =
     (case marker_at (c # cs) of Some path \<Rightarrow> Some path | None \<Rightarrow> img_search cs)"

section \<open>table_of_contents: the package index\<close>

text \<open>
  BeautifulSoup is not part of the repository. A parsed archive member is given by the
  answers to the queries the program makes on it: \<open>find('rootfile')\<close>,
  \<open>find('dc:title').text\<close>, \<open>find('manifest').findAll('item')\<close>,
  \<open>find('spine').findAll('itemref')\<close>, \<open>soup('navpoint')\<close>, each tag by its attribute
  dictionary, and the lexical items of \<open>str(soup.find('body'))\<close>. A \<open>find\<close> with no
  result is \<open>None\<close>. An open \<open>ZipFile\<close> maps member names to parsed members.
\<close>

type_synonym attrs = "string \<rightharpoonup> string"

record navpoint =
  content :: "attrs option"
  navlabel :: "string option"

record soup =
  rootfile :: "attrs option"
  dc_title :: "string option"
  manifest :: "attrs list option"
  spine :: "attrs list option"
  navpoints :: "navpoint list"
  body :: "token list"

type_synonym zipfile = "string \<rightharpoonup> soup"

type_synonym toc_entry = "string \<times> string option"

text \<open>\<open>d[k]\<close> and \<open>ZipFile.read(name)\<close> raise KeyError on a missing key.\<close>

definition getitem :: "('k \<rightharpoonup> 'v) \<Rightarrow> 'k \<Rightarrow> error + 'v" where
  "getitem d k = (case d k of None \<Rightarrow> Inl KeyError | Some v \<Rightarrow> Inr v)"

text \<open>An attribute of the result of a query: \<open>None\<close> has no attribute.\<close>

definition getattr :: "'a option \<Rightarrow> error + 'a" where
  "getattr x = (case x of None \<Rightarrow> Inl AttributeError | Some v \<Rightarrow> Inr v)"

text \<open>\<open>os.path.dirname\<close> (posixpath).\<close>

definition dirname :: "string \<Rightarrow> string" where
  "dirname p =
     (let head = rev (dropWhile (\<lambda>c. c \<noteq> CHR ''/'') (rev p))
      in if head \<noteq> [] \<and> set head \<noteq> {CHR ''/''}
         then rev (dropWhile (\<lambda>c. c = CHR ''/'') (rev head)) else head)"

text \<open>
  The global \<open>basedir\<close> that \<open>table_of_contents\<close> sets from the path of the package
  document: its directory, with a slash after it when it is not empty.
\<close>

definition basedir_of :: "string \<Rightarrow> string" where
  "basedir_of opf = (if dirname opf \<noteq> [] then dirname opf @ ''/'' else [])"

text \<open>Sequencing: an exception raised by the first step ends the computation.\<close>

definition and_then :: "error + 'a \<Rightarrow> ('a \<Rightarrow> error + 'b) \<Rightarrow> error + 'b" where
  "and_then m f = (case m of Inl e \<Rightarrow> Inl e | Inr v \<Rightarrow> f v)"

text \<open>The loop over the manifest items: \<open>x\<close> maps ids to paths, \<open>ncx\<close> is the toc file.\<close>

fun manifest_loop ::
  "string \<Rightarrow> attrs list \<Rightarrow> (string \<rightharpoonup> string) \<times> string option
     \<Rightarrow> error + (string \<rightharpoonup> string) \<times> string option" where
  "manifest_loop basedir [] acc = Inr acc"
| "manifest_loop basedir (d # items) (x, ncx) =
     and_then (getitem d ''href'') (\<lambda>href.
     and_then (getitem d ''id'') (\<lambda>ident.
     and_then (getitem d ''media-type'') (\<lambda>mt.
       manifest_loop basedir items
         (x(ident \<mapsto> basedir @ href),
          if mt = ''application/x-dtbncx+xml'' then Some (basedir @ href) else ncx))))"

text \<open>The loop over the spine: the reading order \<open>y\<close>.\<close>

fun spine_loop :: "(string \<rightharpoonup> string) \<Rightarrow> attrs list \<Rightarrow> error + string list" where
  "spine_loop x [] = Inr []"
| "spine_loop x (d # items) =
     and_then (getitem d ''idref'') (\<lambda>idref.
     and_then (getitem x idref) (\<lambda>p.
     and_then (spine_loop x items) (\<lambda>y. Inr (p # y))))"

text \<open>
  The loop over the navpoints: \<open>z\<close> maps the \<open>src\<close> of a navpoint, cut at the first
  \<open>#\<close>, to its label. \<open>k.split('#')[0]\<close> on \<open>None\<close> raises AttributeError.
\<close>

fun navpoint_loop :: "navpoint list \<Rightarrow> (string \<rightharpoonup> string) \<Rightarrow> error + (string \<rightharpoonup> string)" where
  "navpoint_loop [] z = Inr z"
| "navpoint_loop (np # nps) z =
     and_then (getattr (content np)) (\<lambda>c.
     and_then (getattr (c ''src'')) (\<lambda>src.
       (let k = takeWhile (\<lambda>ch. ch \<noteq> CHR ''#'') src
        in if k \<noteq> []
           then and_then (getattr (navlabel np)) (\<lambda>label. navpoint_loop nps (z(k \<mapsto> label)))
           else navpoint_loop nps z)))"

text \<open>The output loop: one pair for each section of the reading order.\<close>

definition sections :: "(string \<rightharpoonup> string) \<Rightarrow> string list \<Rightarrow> toc_entry list" where
  "sections z y =
     map (\<lambda>section. case z section of Some label \<Rightarrow> (label, Some section)
                     | None \<Rightarrow> ([], Some (strip section))) y"

text \<open>The titles from the toc file, when the manifest names one (\<open>if ncx:\<close>).\<close>

definition titles :: "zipfile \<Rightarrow> string option \<Rightarrow> error + (string \<rightharpoonup> string)" where
  "titles zf ncx =
     (if truthy ncx
      then and_then (getitem zf (the ncx)) (\<lambda>toc. navpoint_loop (navpoints toc) Map.empty)
      else Inr Map.empty)"

text \<open>
  The generator is consumed whole by its callers (\<open>[i for i in table_of_contents(fl)]\<close>), so
  its result is the list of the pairs it yields, or the exception it raises.
\<close>

definition table_of_contents :: "zipfile \<Rightarrow> error + toc_entry list" where
  "table_of_contents zf =
     and_then (getitem zf ''META-INF/container.xml'') (\<lambda>container.
     and_then (getattr (rootfile container)) (\<lambda>rf.
     and_then (getitem rf ''full-path'') (\<lambda>opf.
       (let basedir = basedir_of opf
        in and_then (getitem zf opf) (\<lambda>package.
           and_then (getattr (dc_title package)) (\<lambda>title.
           and_then (getattr (manifest package)) (\<lambda>items.
           and_then (manifest_loop basedir items (Map.empty, None)) (\<lambda>(x, ncx).
           and_then (getattr (spine package)) (\<lambda>itemrefs.
           and_then (spine_loop x itemrefs) (\<lambda>y.
           and_then (titles zf ncx) (\<lambda>z.
             Inr ((title, None) # sections z y))))))))))))"

section \<open>check_epub and dump_epub\<close>

text \<open>
  The world outside the program: which paths are regular files (\<open>os.path.isfile\<close>), what
  \<open>zipfile.ZipFile(path, 'r')\<close> opens (\<open>None\<close>: it raises), and \<open>html.unescape\<close>.
\<close>

record env =
  isfile :: "string \<Rightarrow> bool"
  ZipFile :: "string \<rightharpoonup> zipfile"
  unescape :: "string \<Rightarrow> string"

text \<open>\<open>s.rfind(c)\<close>: the index of the last \<open>c\<close>, or -1.\<close>

definition rfind :: "char \<Rightarrow> string \<Rightarrow> int" where
  "rfind c s =
     (if c \<in> set s then int (length s) - 1 - int (length (takeWhile (\<lambda>x. x \<noteq> c) (rev s)))
      else - 1)"

text \<open>
  \<open>os.path.splitext\<close> (posixpath): the extension starts at the last dot, when that dot
  comes after the last slash and some character between the two is not a dot.
\<close>

definition splitext :: "string \<Rightarrow> string \<times> string" where
  "splitext p =
     (let sepIndex = rfind CHR ''/'' p; dotIndex = rfind CHR ''.'' p
      in if dotIndex > sepIndex
            \<and> list_ex (\<lambda>c. c \<noteq> CHR ''.'') (py_slice p (sepIndex + 1) dotIndex)
         then (take (nat dotIndex) p, drop (nat dotIndex) p) else (p, []))"

definition check_epub :: "env \<Rightarrow> string \<Rightarrow> bool" where
  "check_epub e path = (isfile e path \<and> lower (snd (splitext path)) = ''.epub'')"

text \<open>
  What a run does to the world: it opens the archive, and it prints. An archive member
  is read only from an opened archive.
\<close>

datatype event = Open string | Print string

text \<open>The loop of \<open>dump_epub\<close> over the chapters: the printed texts, and the exception if any.\<close>

fun dump_chaps ::
  "(string \<Rightarrow> string) \<Rightarrow> zipfile \<Rightarrow> maxcol \<Rightarrow> toc_entry list \<Rightarrow> event list \<times> error option" where
  "dump_chaps u zf mc [] = ([], None)"
| "dump_chaps u zf mc ((title, src) # chaps) =
     (let heading = [Print title, Print (replicate (length title) CHR ''-'')];
          rest = (\<lambda>printed. case dump_chaps u zf mc chaps of
                    (out, err) \<Rightarrow> (heading @ printed @ [Print [CHR 0x0A]] @ out, err))
      in if truthy src
         then (case getitem zf (the src) of
                 Inl e \<Rightarrow> (heading, Some e)
               | Inr html \<Rightarrow> rest [Print (textify u (body html) (80, 45) mc)])
         else rest [])"

definition dump_epub :: "env \<Rightarrow> string \<Rightarrow> maxcol \<Rightarrow> event list \<times> error option" where
  "dump_epub e path mc =
     (if \<not> check_epub e path then ([], None)
      else case ZipFile e path of
             None \<Rightarrow> ([], Some BadZipFile)
           | Some zf \<Rightarrow>
               (case table_of_contents zf of
                  Inl err \<Rightarrow> ([Open path], Some err)
                | Inr chaps \<Rightarrow>
                    (case dump_chaps (unescape e) zf mc chaps of
                       (out, err) \<Rightarrow> (Open path # out, err))))"

section \<open>curses_epub: the two views of the reader\<close>

text \<open>
  The key codes the program tests for. \<open>ORD_q\<close> is \<open>ord('q')\<close>, \<open>HT\<close> and \<open>ESC\<close> are
  the codes of \<open>curses.ascii\<close>; \<open>OTHER\<close> is any other code that \<open>getch\<close> returns, apart
  from \<open>i\<close> and \<open>e\<close>, which in the chapter view hand the terminal to another program
  (\<open>open_image\<close>, \<open>run\<close>) and are left out of the model.
\<close>

datatype key =
    KEY_DOWN | KEY_UP | KEY_NPAGE | KEY_PPAGE | KEY_RIGHT | KEY_LEFT | HT | ESC | ORD_q | OTHER

definition ESCAPE_KEYS :: "key list" where
  "ESCAPE_KEYS = [ORD_q, ESC]"

definition TOC_DOWN_LINE_KEYS :: "key list" where
  "TOC_DOWN_LINE_KEYS = [KEY_DOWN]"

definition TOC_UP_LINE_KEYS :: "key list" where
  "TOC_UP_LINE_KEYS = [KEY_UP]"

definition TOC_DOWN_PAGE_KEYS :: "key list" where
  "TOC_DOWN_PAGE_KEYS = [KEY_NPAGE]"

definition TOC_UP_PAGE_KEYS :: "key list" where
  "TOC_UP_PAGE_KEYS = [KEY_PPAGE]"

definition CHAPTER_DOWN_PAGE_KEYS :: "key list" where
  "CHAPTER_DOWN_PAGE_KEYS = [KEY_DOWN]"

definition CHAPTER_UP_PAGE_KEYS :: "key list" where
  "CHAPTER_UP_PAGE_KEYS = [KEY_UP]"

definition CHAPTER_DOWN_LINE_KEYS :: "key list" where
  "CHAPTER_DOWN_LINE_KEYS = [KEY_NPAGE]"

definition CHAPTER_UP_LINE_KEYS :: "key list" where
  "CHAPTER_UP_LINE_KEYS = [KEY_PPAGE]"

definition CHAPTERTOCSWITCH_KEYS :: "key list" where
  "CHAPTERTOCSWITCH_KEYS = [HT, KEY_RIGHT, KEY_LEFT]"

text \<open>
  The local variables of \<open>curses_epub\<close> that live across loop iterations. \<open>view\<close> is the
  loop the program is in: the outer one (the table of contents) or the inner one (a
  chapter), and then the lines \<open>chap\<close> of the chapter; the empty string that \<open>chap\<close> is
  for an entry without a source has no lines.
\<close>

datatype view = Toc | Chapter "string list"

record state =
  start :: int
  cursor_row :: int
  chaps_pos :: "int list"
  view :: view

text \<open>One iteration of a loop continues with a new state, returns, or raises.\<close>

datatype outcome = Continue state | Return | Raise error

text \<open>
  \<open>list_chaps\<close> draws the slice (drawing errors are caught and dropped) and returns the
  loop variable \<open>i\<close>: the last index of the slice. After a loop over an empty slice
  \<open>i\<close> is unbound.
\<close>

definition list_chaps :: "toc_entry list \<Rightarrow> int \<Rightarrow> int \<Rightarrow> error + int" where
  "list_chaps chaps st len =
     (let sl = py_slice chaps st (st + len)
      in if sl = [] then Inl UnboundLocalError else Inr (int (length sl) - 1))"

text \<open>
  One iteration of the outer loop, the table of contents, on the screen size \<open>(maxy, maxx)\<close>
  and the key \<open>ch\<close>. \<open>screen.move(cursor_row, 0)\<close> raises when the row is not on the
  screen; after the clamp above it that is a negative row.
\<close>

definition enter_chapter ::
  "(string \<Rightarrow> string) \<Rightarrow> zipfile \<Rightarrow> toc_entry list \<Rightarrow> int \<Rightarrow> int \<Rightarrow> state \<Rightarrow> outcome" where
  "enter_chapter u zf chaps maxy maxx s =
     (case py_index chaps (start s + cursor_row s) of
        Inl e \<Rightarrow> Raise e
      | Inr (title, src) \<Rightarrow>
          if truthy src
          then (case getitem zf (the src) of
                  Inl e \<Rightarrow> Raise e
                | Inr html \<Rightarrow>
                    Continue (s\<lparr>view :=
                      Chapter (split_nl (textify u (body html) (maxy, maxx) (Cols maxx)))\<rparr>))
          else Continue (s\<lparr>view := Chapter []\<rparr>))"

definition toc_step ::
  "(string \<Rightarrow> string) \<Rightarrow> zipfile \<Rightarrow> toc_entry list \<Rightarrow> int \<Rightarrow> int \<Rightarrow> key \<Rightarrow> state \<Rightarrow> outcome" where
  "toc_step u zf chaps maxy maxx ch s0 =
     (let s = (if cursor_row s0 \<ge> maxy then s0\<lparr>cursor_row := maxy - 1\<rparr> else s0)
      in case list_chaps chaps (start s) maxy of
           Inl e \<Rightarrow> Raise e
         | Inr len_chaps \<Rightarrow>
             if cursor_row s < 0 then Raise CursesError
             else if ch \<in> set ESCAPE_KEYS then Return
             else if ch \<in> set TOC_DOWN_LINE_KEYS then
               (if start s < int (length chaps) - maxy
                then Continue (s\<lparr>start := start s + 1\<rparr>)
                else if cursor_row s < maxy - 1 \<and> cursor_row s < len_chaps
                then Continue (s\<lparr>cursor_row := cursor_row s + 1\<rparr>)
                else Continue s)
             else if ch \<in> set TOC_UP_LINE_KEYS then
               (if start s > 0 then Continue (s\<lparr>start := start s - 1\<rparr>)
                else if cursor_row s > 0 then Continue (s\<lparr>cursor_row := cursor_row s - 1\<rparr>)
                else Continue s)
             else if ch \<in> set TOC_DOWN_PAGE_KEYS then
               (if start s + maxy - 1 < int (length chaps)
                then Continue (s\<lparr>start :=
                       (if len_chaps < maxy then int (length chaps) - maxy
                        else start s + (maxy - 1))\<rparr>)
                else Continue s)
             else if ch \<in> set TOC_UP_PAGE_KEYS then
               (if start s > 0
                then Continue (s\<lparr>start :=
                       (if start s - (maxy - 1) < 0 then 0 else start s - (maxy - 1))\<rparr>)
                else Continue s)
             else if ch \<in> set CHAPTERTOCSWITCH_KEYS then enter_chapter u zf chaps maxy maxx s
             else Continue s)"

text \<open>\<open>chaps_pos[start + cursor_row] = v\<close>.\<close>

definition set_pos :: "state \<Rightarrow> int \<Rightarrow> outcome" where
  "set_pos s v =
     (case py_setitem (chaps_pos s) (start s + cursor_row s) v of
        Inl e \<Rightarrow> Raise e
      | Inr ps \<Rightarrow> Continue (s\<lparr>chaps_pos := ps\<rparr>))"

text \<open>
  One iteration of the inner loop, the chapter \<open>chap\<close>. The slice it draws starts at
  \<open>chaps_pos[start + cursor_row]\<close>, read before the key.
\<close>

definition chapter_step :: "int \<Rightarrow> key \<Rightarrow> string list \<Rightarrow> state \<Rightarrow> outcome" where
  "chapter_step maxy ch chap s =
     (case py_index (chaps_pos s) (start s + cursor_row s) of
        Inl e \<Rightarrow> Raise e
      | Inr pos \<Rightarrow>
          if ch \<in> set ESCAPE_KEYS then Return
          else if ch \<in> set CHAPTERTOCSWITCH_KEYS then Continue (s\<lparr>view := Toc\<rparr>)
          else if ch \<in> set CHAPTER_DOWN_PAGE_KEYS then
            (if pos + maxy - 1 < int (length chap) then set_pos s (pos + (maxy - 1))
             else Continue s)
          else if ch \<in> set CHAPTER_UP_PAGE_KEYS then
            (if pos > 0
             then set_pos s (if pos - (maxy - 1) < 0 then 0 else pos - (maxy - 1))
             else Continue s)
          else if ch \<in> set CHAPTER_DOWN_LINE_KEYS then
            (if pos + maxy - 1 < int (length chap) then set_pos s (pos + 1)
             else Continue s)
          else if ch \<in> set CHAPTER_UP_LINE_KEYS then
            (if pos > 0 then set_pos s (pos - 1) else Continue s)
          else Continue s)"

text \<open>The lines of the chapter that the inner loop draws.\<close>

definition shown :: "int \<Rightarrow> string list \<Rightarrow> state \<Rightarrow> error + string list" where
  "shown maxy chap s =
     and_then (py_index (chaps_pos s) (start s + cursor_row s))
       (\<lambda>pos. Inr (py_slice chap pos (pos + maxy)))"

text \<open>One iteration of the loop the program is in.\<close>

definition step ::
  "(string \<Rightarrow> string) \<Rightarrow> zipfile \<Rightarrow> toc_entry list \<Rightarrow> int \<Rightarrow> int \<Rightarrow> key \<Rightarrow> state \<Rightarrow> outcome" where
  "step u zf chaps maxy maxx ch s =
     (case view s of
        Toc \<Rightarrow> toc_step u zf chaps maxy maxx ch s
      | Chapter chap \<Rightarrow> chapter_step maxy ch chap s)"

text \<open>
  The loops on a sequence of inputs, each the screen size that \<open>getmaxyx\<close> reports in an
  iteration and the key that \<open>getch\<close> returns in it. When the inputs are used up the
  program waits for the next key in the state given.
\<close>

fun run ::
  "(string \<Rightarrow> string) \<Rightarrow> zipfile \<Rightarrow> toc_entry list \<Rightarrow> (int \<times> int \<times> key) list \<Rightarrow> state \<Rightarrow> outcome" where
  "run u zf chaps [] s = Continue s"
| "run u zf chaps ((maxy, maxx, ch) # inputs) s =
     (case step u zf chaps maxy maxx ch s of
        Continue s' \<Rightarrow> run u zf chaps inputs s'
      | Return \<Rightarrow> Return
      | Raise e \<Rightarrow> Raise e)"

definition initial :: "toc_entry list \<Rightarrow> state" where
  "initial chaps = \<lparr>start = 0, cursor_row = 0, chaps_pos = map (\<lambda>i. 0) chaps, view = Toc\<rparr>"

definition curses_epub :: "env \<Rightarrow> string \<Rightarrow> (int \<times> int \<times> key) list \<Rightarrow> event list \<times> outcome" where
  "curses_epub e path inputs =
     (if \<not> check_epub e path then ([], Return)
      else case ZipFile e path of
             None \<Rightarrow> ([], Raise BadZipFile)
           | Some zf \<Rightarrow>
               (case table_of_contents zf of
                  Inl err \<Rightarrow> ([Open path], Raise err)
                | Inr chaps \<Rightarrow> ([Open path], run (unescape e) zf chaps inputs (initial chaps))))"

text \<open>The navigation keys of the table of contents: a line or a page, up or down.\<close>

definition toc_nav_keys :: "key list" where
  "toc_nav_keys =
     TOC_DOWN_LINE_KEYS @ TOC_UP_LINE_KEYS @ TOC_DOWN_PAGE_KEYS @ TOC_UP_PAGE_KEYS"

text \<open>
  The invariant of the table of contents view on a screen of \<open>h\<close> lines: the window
  start is between 0 and \<open>max(0, len(toc) - h)\<close>, the cursor row is on the screen, and
  the entry under the cursor exists.
\<close>

definition toc_inv :: "toc_entry list \<Rightarrow> int \<Rightarrow> state \<Rightarrow> bool" where
  "toc_inv chaps h s =
     (0 \<le> start s \<and> start s \<le> max 0 (int (length chaps) - h)
      \<and> 0 \<le> cursor_row s \<and> cursor_row s < h
      \<and> start s + cursor_row s < int (length chaps))"

section \<open>The scroll offset under the cursor\<close>

text \<open>
  The scroll offset of the entry under the cursor, \<open>chaps_pos[start + cursor_row]\<close> for
  an index inside the list, and the state with that offset replaced.
\<close>

definition offset :: "state \<Rightarrow> int" where
  "offset s = chaps_pos s ! nat (start s + cursor_row s)"

definition with_offset :: "state \<Rightarrow> int \<Rightarrow> state" where
  "with_offset s v = s\<lparr>chaps_pos := (chaps_pos s)[nat (start s + cursor_row s) := v]\<rparr>"

section \<open>Example archives\<close>

text \<open>A parsed archive member on which every query comes back empty.\<close>

definition no_soup :: soup where
  "no_soup = \<lparr>rootfile = None, dc_title = None, manifest = None, spine = None,
               navpoints = [], body = []\<rparr>"

text \<open>
  An archive with the package document \<open>content.opf\<close> at its top, three spine items,
  and a navigation document that labels the first and the third.
\<close>

definition container_at :: "string \<Rightarrow> soup" where
  "container_at opf = no_soup\<lparr>rootfile := Some [''full-path'' \<mapsto> opf]\<rparr>"

definition three_items :: "attrs list" where
  "three_items =
     [[''id'' \<mapsto> ''ncx'', ''href'' \<mapsto> ''toc.ncx'',
       ''media-type'' \<mapsto> ''application/x-dtbncx+xml''],
      [''id'' \<mapsto> ''c1'', ''href'' \<mapsto> ''ch1.html'', ''media-type'' \<mapsto> ''application/xhtml+xml''],
      [''id'' \<mapsto> ''c2'', ''href'' \<mapsto> ''ch2.html'', ''media-type'' \<mapsto> ''application/xhtml+xml''],
      [''id'' \<mapsto> ''c3'', ''href'' \<mapsto> ''ch3.html'', ''media-type'' \<mapsto> ''application/xhtml+xml'']]"

definition three_itemrefs :: "attrs list" where
  "three_itemrefs = [[''idref'' \<mapsto> ''c1''], [''idref'' \<mapsto> ''c2''], [''idref'' \<mapsto> ''c3'']]"

definition three_package :: soup where
  "three_package =
     no_soup\<lparr>dc_title := Some ''Book'', manifest := Some three_items,
             spine := Some three_itemrefs\<rparr>"

definition three_navpoints :: "navpoint list" where
  "three_navpoints =
     [\<lparr>content = Some [''src'' \<mapsto> ''ch1.html''], navlabel = Some ''One''\<rparr>,
      \<lparr>content = Some [''src'' \<mapsto> ''ch3.html#top''], navlabel = Some ''Three''\<rparr>]"

definition three_chapters :: zipfile where
  "three_chapters =
     [''META-INF/container.xml'' \<mapsto> container_at ''content.opf'',
      ''content.opf'' \<mapsto> three_package,
      ''toc.ncx'' \<mapsto> no_soup\<lparr>navpoints := three_navpoints\<rparr>]"

text \<open>
  An archive with one spine item and no navigation document; the \<open>href\<close> of the item
  starts with a space.
\<close>

definition padded_items :: "attrs list" where
  "padded_items =
     [[''id'' \<mapsto> ''c1'', ''href'' \<mapsto> '' ch1.html'', ''media-type'' \<mapsto> ''application/xhtml+xml'']]"

definition padded_href :: zipfile where
  "padded_href =
     [''META-INF/container.xml'' \<mapsto> container_at ''content.opf'',
      ''content.opf'' \<mapsto> no_soup\<lparr>dc_title := Some ''Book'', manifest := Some padded_items,
                                  spine := Some [[''idref'' \<mapsto> ''c1'']]\<rparr>]"

text \<open>
  The same package document, navigation document and chapters, kept in the directory
  \<open>OEBPS\<close>: the manifest and the navigation document name the files relative to that
  directory, as they do above.
\<close>

definition in_directory :: zipfile where
  "in_directory =
     [''META-INF/container.xml'' \<mapsto> container_at ''OEBPS/content.opf'',
      ''OEBPS/content.opf'' \<mapsto> three_package,
      ''OEBPS/toc.ncx'' \<mapsto> no_soup\<lparr>navpoints := three_navpoints\<rparr>]"

section \<open>Properties of textify\<close>

text \<open>
  Each lexical item appends a text of its own to the buffer, whatever the buffer and the
  column limit are; the result of \<open>textify\<close> is the concatenation of these texts.
\<close>

lemma goahead_fl:
  "fl (goahead u cc w t) = fl w @ fl (goahead u cc \<lparr>fl = [], maxcol = PlusInf\<rparr> t)"
  by (cases t) (simp_all add: handle_data_def handle_entityref_def handle_charref_def
      handle_starttag_def handle_endtag_def add_data_def)

lemma feed_fl:
  "fl (feed u cc w toks) =
     fl w @ concat (map (\<lambda>t. fl (goahead u cc \<lparr>fl = [], maxcol = PlusInf\<rparr> t)) toks)"
  unfolding feed_def
proof (induction toks arbitrary: w)
  case Nil
  show ?case by simp
next
  case (Cons t toks)
  show ?case by (simp add: Cons.IH goahead_fl [of u cc w t])
qed

lemma textify_concat:
  "textify u toks sz mc =
     concat (map (\<lambda>t. fl (goahead u True \<lparr>fl = [], maxcol = PlusInf\<rparr> t)) toks)"
  by (simp add: textify_def feed_fl convert_charrefs_def)

text \<open>The \<open>Writer\<close> stores \<open>maxcol\<close> and never reads it: the limit does not change the text.\<close>

lemma textify_maxcol_unused: "textify u toks sz mc = textify u toks sz mc'"
  by (simp add: textify_def feed_fl)

text \<open>
  C1 (every line of the text is at most \<open>maxcol\<close> columns wide, but for a run without a
  break point). The code does not reflow: for the snippet \<open>hello world\<close> and a limit of
  5 columns the text is the one line \<open>hello world\<close>, 11 columns wide, although it has a
  space to break at.
\<close>

theorem textify_does_not_wrap:
  "textify u [Data ''hello world''] (80, 45) (Cols 5) = ''hello world''
   \<and> line_widths (textify u [Data ''hello world''] (80, 45) (Cols 5)) = [11]"
  by (simp add: textify_concat handle_data_def add_data_def line_widths_def)

text \<open>
  The two reference handlers of \<open>Parser\<close> write a reference back as it was read: a parser
  that runs without \<open>convert_charrefs\<close> keeps \<open>&amp;\<close> and \<open>&#169;\<close> in the text.
\<close>

lemma handlers_keep_references:
  "fl (feed u False w [Data ''a '', EntityRef ''amp'', Data '' b '', CharRef ''169''])
     = fl w @ ''a &amp; b &#169;''"
  by (simp add: feed_fl handle_data_def add_data_def handle_entityref_def handle_charref_def)

text \<open>
  C2 (the text keeps \<open>&amp;\<close> and \<open>&#169;\<close> as they are written). The parser of
  \<open>textify\<close> runs with \<open>convert_charrefs\<close> set, so the handlers above are never called:
  for the snippet \<open>a &amp; b &#169;\<close> the text holds, in place of each reference, what
  \<open>html.unescape\<close> makes of it (the ampersand and the copyright sign).
\<close>

theorem textify_decodes_references:
  "textify u [Data ''a '', EntityRef ''amp'', Data '' b '', CharRef ''169''] sz mc
     = ''a '' @ u ''&amp;'' @ '' b '' @ u ''&#169;''"
  by (simp add: textify_concat handle_data_def add_data_def)

text \<open>
  With the two values \<open>html.unescape\<close> has on these references, the ampersand and the
  copyright sign (code point 169), the text is \<open>a & b \<close> followed by the sign.
\<close>

lemma textify_with_html_unescape:
  assumes "u ''&amp;'' = ''&''" and "u ''&#169;'' = [CHR 0xA9]"
  shows "textify u [Data ''a '', EntityRef ''amp'', Data '' b '', CharRef ''169''] sz mc
           = ''a & b '' @ [CHR 0xA9]"
  using assms by (simp add: textify_concat handle_data_def add_data_def)

text \<open>
  The search of the chapter view finds the path in a line that holds a marker
  \<open>[img="images/cover.jpg" "Cover"]\<close>.
\<close>

lemma img_search_finds_marker:
  "img_search (''see [img='' @ [CHR 0x22] @ ''images/cover.jpg''
      @ [CHR 0x22, CHR 0x20, CHR 0x22] @ ''Cover'' @ [CHR 0x22] @ '']'')
     = Some ''images/cover.jpg''"
  by (simp add: marker_at_def)

text \<open>
  C5 (an image reference becomes a marker \<open>[img="path" "alt"]\<close> in the text). The handler
  of start tags does nothing, for \<open>img\<close> as for every tag: the snippet
  \<open>see <img src="images/cover.jpg" alt="Cover"/>\<close> gives the text \<open>see \<close>, in which the
  search of the chapter view finds no marker.
\<close>

theorem textify_drops_images:
  "textify u [Data ''see '', StartEndTag ''img''
        [(''src'', Some ''images/cover.jpg''), (''alt'', Some ''Cover'')]] sz mc = ''see ''
   \<and> img_search (textify u [Data ''see '', StartEndTag ''img''
        [(''src'', Some ''images/cover.jpg''), (''alt'', Some ''Cover'')]] sz mc) = None"
  by (simp add: textify_concat handle_data_def add_data_def handle_starttag_def
      handle_endtag_def marker_at_def)

section \<open>Properties of the table of contents view\<close>

text \<open>The key lists, for unfolding.\<close>

lemmas key_lists = ESCAPE_KEYS_def TOC_DOWN_LINE_KEYS_def TOC_UP_LINE_KEYS_def
  TOC_DOWN_PAGE_KEYS_def TOC_UP_PAGE_KEYS_def CHAPTER_DOWN_PAGE_KEYS_def
  CHAPTER_UP_PAGE_KEYS_def CHAPTER_DOWN_LINE_KEYS_def CHAPTER_UP_LINE_KEYS_def
  CHAPTERTOCSWITCH_KEYS_def

text \<open>
  A slice of \<open>h\<close> entries that starts inside the list has \<open>min(len - start, h)\<close>
  entries, so \<open>list_chaps\<close> returns one less and does not raise.
\<close>

lemma length_py_slice:
  assumes "0 \<le> a" "a < int (length xs)" "1 \<le> h"
  shows "int (length (py_slice xs a (a + h))) = min (int (length xs) - a) h"
proof -
  have "length (py_slice xs a (a + h)) = min (length xs) (nat (a + h)) - nat a"
    using assms by (simp add: py_slice_def slice_bound_def Let_def)
  with assms show ?thesis
    by linarith
qed

lemma list_chaps_window:
  assumes "0 \<le> st" "st < int (length chaps)" "1 \<le> h"
  shows "list_chaps chaps st h = Inr (min (int (length chaps) - st) h - 1)"
proof -
  have len: "int (length (py_slice chaps st (st + h))) = min (int (length chaps) - st) h"
    using assms by (rule length_py_slice)
  then have "py_slice chaps st (st + h) \<noteq> []"
    using assms by auto
  then show ?thesis
    by (simp add: list_chaps_def Let_def len)
qed

text \<open>Under the invariant the clamp of the cursor row at the head of the loop does nothing.\<close>

lemma toc_inv_no_clamp:
  "toc_inv chaps h s \<Longrightarrow> (if cursor_row s \<ge> h then s\<lparr>cursor_row := h - 1\<rparr> else s) = s"
  by (simp add: toc_inv_def)

text \<open>Each navigation key keeps the invariant, the view and the scroll offsets.\<close>

lemma toc_step_line_down:
  assumes "toc_inv chaps h s" "1 \<le> h"
  shows "\<exists>s'. toc_step u zf chaps h w KEY_DOWN s = Continue s' \<and> toc_inv chaps h s'
           \<and> view s' = view s \<and> chaps_pos s' = chaps_pos s"
proof -
  from assms have w: "list_chaps chaps (start s) h = Inr (min (int (length chaps) - start s) h - 1)"
    by (intro list_chaps_window) (auto simp: toc_inv_def)
  show ?thesis
    using assms by (auto simp: toc_step_def toc_inv_no_clamp w key_lists toc_inv_def)
qed

lemma toc_step_line_up:
  assumes "toc_inv chaps h s" "1 \<le> h"
  shows "\<exists>s'. toc_step u zf chaps h w KEY_UP s = Continue s' \<and> toc_inv chaps h s'
           \<and> view s' = view s \<and> chaps_pos s' = chaps_pos s"
proof -
  from assms have w: "list_chaps chaps (start s) h = Inr (min (int (length chaps) - start s) h - 1)"
    by (intro list_chaps_window) (auto simp: toc_inv_def)
  show ?thesis
    using assms by (auto simp: toc_step_def toc_inv_no_clamp w key_lists toc_inv_def)
qed

text \<open>
  Under the invariant, a page down puts the window at its last position
  \<open>max(0, len(toc) - h)\<close>, wherever it was; a page up moves it back by \<open>h - 1\<close>, not
  below 0. Neither moves the cursor.
\<close>

lemma toc_step_page_down:
  assumes "toc_inv chaps h s" "1 \<le> h"
  shows "toc_step u zf chaps h w KEY_NPAGE s
           = Continue (s\<lparr>start := max 0 (int (length chaps) - h)\<rparr>)"
proof -
  from assms have w: "list_chaps chaps (start s) h = Inr (min (int (length chaps) - start s) h - 1)"
    by (intro list_chaps_window) (auto simp: toc_inv_def)
  show ?thesis
    using assms by (auto simp: toc_step_def toc_inv_no_clamp w key_lists toc_inv_def)
qed

lemma toc_step_page_up:
  assumes "toc_inv chaps h s" "1 \<le> h"
  shows "toc_step u zf chaps h w KEY_PPAGE s
           = Continue (s\<lparr>start := max 0 (start s - (h - 1))\<rparr>)"
proof -
  from assms have w: "list_chaps chaps (start s) h = Inr (min (int (length chaps) - start s) h - 1)"
    by (intro list_chaps_window) (auto simp: toc_inv_def)
  show ?thesis
    using assms by (auto simp: toc_step_def toc_inv_no_clamp w key_lists toc_inv_def)
qed

lemma toc_step_nav:
  assumes "toc_inv chaps h s" "1 \<le> h" "ch \<in> set toc_nav_keys"
  shows "\<exists>s'. toc_step u zf chaps h w ch s = Continue s' \<and> toc_inv chaps h s'
           \<and> view s' = view s \<and> chaps_pos s' = chaps_pos s"
proof -
  from assms(3) consider "ch = KEY_DOWN" | "ch = KEY_UP" | "ch = KEY_NPAGE" | "ch = KEY_PPAGE"
    by (auto simp: toc_nav_keys_def key_lists)
  then show ?thesis
  proof cases
    case 1
    then show ?thesis using toc_step_line_down [OF assms(1,2)] by simp
  next
    case 2
    then show ?thesis using toc_step_line_up [OF assms(1,2)] by simp
  next
    case 3
    then show ?thesis using assms(1,2)
      by (auto simp: toc_step_page_down [OF assms(1,2)] toc_inv_def)
  next
    case 4
    then show ?thesis using assms(1,2)
      by (auto simp: toc_step_page_up [OF assms(1,2)] toc_inv_def)
  qed
qed

lemma run_toc_nav:
  assumes "1 \<le> h" "set keys \<subseteq> set toc_nav_keys"
  shows "toc_inv chaps h s \<Longrightarrow> view s = Toc \<Longrightarrow>
         \<exists>s'. run u zf chaps (map (\<lambda>k. (h, w, k)) keys) s = Continue s' \<and> toc_inv chaps h s'
           \<and> view s' = Toc \<and> chaps_pos s' = chaps_pos s"
  using assms(2)
proof (induction keys arbitrary: s)
  case Nil
  then show ?case by simp
next
  case (Cons k keys)
  from Cons.prems have k: "k \<in> set toc_nav_keys" and ks: "set keys \<subseteq> set toc_nav_keys"
    by auto
  from toc_step_nav [OF Cons.prems(1) assms(1) k, of u zf w]
  obtain s1 where s1: "toc_step u zf chaps h w k s = Continue s1" "toc_inv chaps h s1"
      "view s1 = view s" "chaps_pos s1 = chaps_pos s"
    by blast
  from Cons.IH [OF s1(2) _ ks] s1(3) Cons.prems(2)
  obtain s' where "run u zf chaps (map (\<lambda>k. (h, w, k)) keys) s1 = Continue s'"
      "toc_inv chaps h s'" "view s' = Toc" "chaps_pos s' = chaps_pos s1"
    by auto
  with s1 Cons.prems(2) show ?case
    by (simp add: step_def)
qed

lemma toc_inv_initial: "chaps \<noteq> [] \<Longrightarrow> 1 \<le> h \<Longrightarrow> toc_inv chaps h (initial chaps)"
  by (cases chaps) (simp_all add: toc_inv_def initial_def)

text \<open>
  C6. On a table of contents with at least one entry and a screen of \<open>h \<ge> 1\<close> lines,
  every sequence of line-down, line-up, page-down and page-up keys from the initial state
  is processed without an exception, leaves the program in the table of contents view,
  and ends in a state with \<open>0 \<le> start \<le> max(0, len(toc) - h)\<close> and
  \<open>start + cursor_row < len(toc)\<close>.
\<close>

theorem toc_scroll_invariant:
  assumes "chaps \<noteq> []" "1 \<le> h" "set keys \<subseteq> set toc_nav_keys"
  shows "\<exists>s'. run u zf chaps (map (\<lambda>k. (h, w, k)) keys) (initial chaps) = Continue s'
           \<and> view s' = Toc
           \<and> 0 \<le> start s' \<and> start s' \<le> max 0 (int (length chaps) - h)
           \<and> start s' + cursor_row s' < int (length chaps)"
proof -
  have "toc_inv chaps h (initial chaps)" "view (initial chaps) = Toc"
    using assms(1,2) by (simp_all add: toc_inv_initial) (simp add: initial_def)
  from run_toc_nav [OF assms(2,3) this, of u zf w] show ?thesis
    by (auto simp: toc_inv_def)
qed

text \<open>C6 on a table of three entries, a screen of two lines and five keys.\<close>

theorem toc_scroll_invariant_witness:
  "\<exists>s'. run (\<lambda>t. t) Map.empty
            [(''Book'', None), (''One'', Some ''ch1.html''), ([], Some ''ch2.html'')]
            (map (\<lambda>k. (2, 80, k)) [KEY_DOWN, KEY_DOWN, KEY_NPAGE, KEY_UP, KEY_PPAGE])
            (initial [(''Book'', None), (''One'', Some ''ch1.html''), ([], Some ''ch2.html'')])
          = Continue s'
        \<and> view s' = Toc \<and> 0 \<le> start s'
        \<and> start s' \<le> max 0 (int (length
              [(''Book'', None :: string option), (''One'', Some ''ch1.html''), ([], Some ''ch2.html'')]) - 2)
        \<and> start s' + cursor_row s' < int (length
              [(''Book'', None :: string option), (''One'', Some ''ch1.html''), ([], Some ''ch2.html'')])"
  using toc_scroll_invariant [of "[(''Book'', None), (''One'', Some ''ch1.html''), ([], Some ''ch2.html'')]"
      2 "[KEY_DOWN, KEY_DOWN, KEY_NPAGE, KEY_UP, KEY_PPAGE]" "\<lambda>t. t" Map.empty 80]
  by (simp add: toc_nav_keys_def key_lists)

text \<open>
  C7 (a page down or a page up moves the window by \<open>h - 1\<close>, clamped, and keeps the
  cursor). A page up does (\<open>toc_step_page_up\<close>). A page down does not: the test
  \<open>len_chaps < maxy\<close> after \<open>start += maxy - 1\<close> compares the last index of a slice of at
  most \<open>maxy\<close> entries with \<open>maxy\<close> and is always true, so the window jumps to its last
  position (\<open>toc_step_page_down\<close>). With ten entries on a screen of three lines, a page
  down from the top puts the window at 7, not at 2.
\<close>

theorem toc_page_down_jumps_to_end:
  "toc_step u zf ((''Book'', None) # replicate 9 (''Ch'', Some ''c.html'')) 3 80 KEY_NPAGE
       \<lparr>start = 0, cursor_row = 0, chaps_pos = replicate 10 0, view = Toc\<rparr>
     = Continue \<lparr>start = 7, cursor_row = 0, chaps_pos = replicate 10 0, view = Toc\<rparr>"
  by (simp add: toc_step_def list_chaps_def py_slice_def slice_bound_def key_lists)

text \<open>Indexing inside the list does not raise.\<close>

lemma py_index_in_range:
  "0 \<le> i \<Longrightarrow> i < int (length xs) \<Longrightarrow> py_index xs i = Inr (xs ! nat i)"
  by (simp add: py_index_def)

lemma py_setitem_in_range:
  "0 \<le> i \<Longrightarrow> i < int (length xs) \<Longrightarrow> py_setitem xs i v = Inr (xs[nat i := v])"
  by (simp add: py_setitem_def)

text \<open>
  C3 as stated (the switch key on an entry without a source is a no-op that stays in the
  table of contents) fails: on the title entry the key takes the program into the inner
  loop, with a chapter of no lines.
\<close>

theorem enter_header_counterexample:
  "toc_step (\<lambda>t. t) Map.empty [(''Book'', None)] 24 80 HT
       \<lparr>start = 0, cursor_row = 0, chaps_pos = [0], view = Toc\<rparr>
     = Continue \<lparr>start = 0, cursor_row = 0, chaps_pos = [0], view = Chapter []\<rparr>
   \<and> toc_step (\<lambda>t. t) Map.empty [(''Book'', None)] 24 80 HT
       \<lparr>start = 0, cursor_row = 0, chaps_pos = [0], view = Toc\<rparr>
     \<noteq> Continue \<lparr>start = 0, cursor_row = 0, chaps_pos = [0], view = Toc\<rparr>"
  by (simp add: toc_step_def list_chaps_def py_slice_def slice_bound_def key_lists
      enter_chapter_def py_index_def)

text \<open>
  C3, amended. In a state of the table of contents view that satisfies the invariant, a
  switch key on an entry whose source is \<open>None\<close> reads nothing from the archive and
  enters the chapter view on a chapter of no lines; the window start, the cursor row and
  every scroll offset stay as they are. The next switch key, on any screen size, returns
  to the table of contents view in the state the first key was pressed in.
\<close>

theorem enter_header_entry:
  assumes "toc_inv chaps h s" "1 \<le> h" "view s = Toc"
    and "length (chaps_pos s) = length chaps"
    and "snd (chaps ! nat (start s + cursor_row s)) = None"
    and "ch \<in> set CHAPTERTOCSWITCH_KEYS"
  shows "toc_step u zf chaps h w ch s = Continue (s\<lparr>view := Chapter []\<rparr>)
       \<and> step u zf chaps h' w' ch (s\<lparr>view := Chapter []\<rparr>) = Continue s"
proof -
  from assms(1,2) have win:
    "list_chaps chaps (start s) h = Inr (min (int (length chaps) - start s) h - 1)"
    by (intro list_chaps_window) (auto simp: toc_inv_def)
  from assms(1) have idx: "py_index chaps (start s + cursor_row s)
      = Inr (chaps ! nat (start s + cursor_row s))"
    by (intro py_index_in_range) (auto simp: toc_inv_def)
  obtain title src where e: "chaps ! nat (start s + cursor_row s) = (title, src)"
    by (cases "chaps ! nat (start s + cursor_row s)")
  with assms(5) have src: "src = None" by simp
  have enter: "enter_chapter u zf chaps h w s = Continue (s\<lparr>view := Chapter []\<rparr>)"
    by (simp add: enter_chapter_def idx e src)
  from assms(6) have k: "ch \<notin> set ESCAPE_KEYS" "ch \<notin> set TOC_DOWN_LINE_KEYS"
    "ch \<notin> set TOC_UP_LINE_KEYS" "ch \<notin> set TOC_DOWN_PAGE_KEYS" "ch \<notin> set TOC_UP_PAGE_KEYS"
    by (auto simp: key_lists)
  from assms(1) have nonneg: "\<not> cursor_row s < 0"
    by (simp add: toc_inv_def)
  have first: "toc_step u zf chaps h w ch s = Continue (s\<lparr>view := Chapter []\<rparr>)"
    by (simp add: toc_step_def toc_inv_no_clamp [OF assms(1)] win k nonneg assms(6) enter)
  from assms(1,4) have pos: "py_index (chaps_pos s) (start s + cursor_row s)
      = Inr (chaps_pos s ! nat (start s + cursor_row s))"
    by (intro py_index_in_range) (auto simp: toc_inv_def)
  have "s\<lparr>view := Toc\<rparr> = s"
    using assms(3) by simp
  then have second: "step u zf chaps h' w' ch (s\<lparr>view := Chapter []\<rparr>) = Continue s"
    using pos k(1) assms(6) by (simp add: step_def chapter_step_def)
  from first second show ?thesis ..
qed

text \<open>C3, amended, on the title entry of a table of two entries.\<close>

theorem enter_header_entry_witness:
  "toc_step (\<lambda>t. t) Map.empty [(''Book'', None), (''One'', Some ''ch1.html'')] 24 80 HT
       \<lparr>start = 0, cursor_row = 0, chaps_pos = [0, 5], view = Toc\<rparr>
     = Continue \<lparr>start = 0, cursor_row = 0, chaps_pos = [0, 5], view = Chapter []\<rparr>
   \<and> step (\<lambda>t. t) Map.empty [(''Book'', None), (''One'', Some ''ch1.html'')] 30 100 HT
       \<lparr>start = 0, cursor_row = 0, chaps_pos = [0, 5], view = Chapter []\<rparr>
     = Continue \<lparr>start = 0, cursor_row = 0, chaps_pos = [0, 5], view = Toc\<rparr>"
  using enter_header_entry [of "[(''Book'', None), (''One'', Some ''ch1.html'')]" 24
      "\<lparr>start = 0, cursor_row = 0, chaps_pos = [0, 5], view = Toc\<rparr>" HT
      "\<lambda>t. t" Map.empty 80 30 100]
  by (simp add: toc_inv_def key_lists)

section \<open>Properties of the chapter view\<close>

text \<open>
  C4 as stated (the down arrow moves the offset by 1, PgDn and PgUp by \<open>h - 1\<close>) fails:
  in a chapter of 100 lines on a screen of 10 lines, at offset 0, the down arrow moves
  the offset to 9 and PgDn moves it to 1.
\<close>

theorem chapter_keys_counterexample:
  "chapter_step 10 KEY_DOWN (replicate 100 ''line'')
       \<lparr>start = 0, cursor_row = 1, chaps_pos = [0, 0], view = Chapter (replicate 100 ''line'')\<rparr>
     = Continue \<lparr>start = 0, cursor_row = 1, chaps_pos = [0, 9],
         view = Chapter (replicate 100 ''line'')\<rparr>
   \<and> chapter_step 10 KEY_NPAGE (replicate 100 ''line'')
       \<lparr>start = 0, cursor_row = 1, chaps_pos = [0, 0], view = Chapter (replicate 100 ''line'')\<rparr>
     = Continue \<lparr>start = 0, cursor_row = 1, chaps_pos = [0, 1],
         view = Chapter (replicate 100 ''line'')\<rparr>"
  by (simp add: chapter_step_def py_index_def set_pos_def py_setitem_def key_lists)

text \<open>
  C4, amended. In the chapter view of a chapter of \<open>L\<close> lines, with the offset \<open>o\<close> of
  the entry under the cursor: the down arrow (a page down) adds \<open>h - 1\<close> to \<open>o\<close> when
  \<open>o + h - 1 < L\<close> and otherwise leaves it; the up arrow (a page up) takes \<open>h - 1\<close>
  from \<open>o\<close>, not below 0, when \<open>o > 0\<close>; PgDn (a line down) adds exactly 1 when
  \<open>o + h - 1 < L\<close> and otherwise leaves it; PgUp (a line up) takes exactly 1 when
  \<open>o > 0\<close>. No other part of the state changes.
\<close>

theorem chapter_scroll:
  assumes "0 \<le> start s + cursor_row s" "start s + cursor_row s < int (length (chaps_pos s))"
  shows "chapter_step h KEY_DOWN chap s = Continue (with_offset s
           (if offset s + h - 1 < int (length chap) then offset s + (h - 1) else offset s))
       \<and> chapter_step h KEY_UP chap s = Continue (with_offset s
           (if offset s > 0 then max 0 (offset s - (h - 1)) else offset s))
       \<and> chapter_step h KEY_NPAGE chap s = Continue (with_offset s
           (if offset s + h - 1 < int (length chap) then offset s + 1 else offset s))
       \<and> chapter_step h KEY_PPAGE chap s = Continue (with_offset s
           (if offset s > 0 then offset s - 1 else offset s))"
  using assms
  by (simp add: chapter_step_def py_index_in_range py_setitem_in_range set_pos_def
      key_lists offset_def with_offset_def max_def)

text \<open>C4, amended, at offset 20 of a chapter of 100 lines on a screen of 10 lines.\<close>

theorem chapter_scroll_witness:
  "chapter_step 10 KEY_DOWN (replicate 100 ''line'')
       \<lparr>start = 0, cursor_row = 1, chaps_pos = [0, 20], view = Chapter (replicate 100 ''line'')\<rparr>
     = Continue \<lparr>start = 0, cursor_row = 1, chaps_pos = [0, 29],
         view = Chapter (replicate 100 ''line'')\<rparr>
   \<and> chapter_step 10 KEY_UP (replicate 100 ''line'')
       \<lparr>start = 0, cursor_row = 1, chaps_pos = [0, 20], view = Chapter (replicate 100 ''line'')\<rparr>
     = Continue \<lparr>start = 0, cursor_row = 1, chaps_pos = [0, 11],
         view = Chapter (replicate 100 ''line'')\<rparr>
   \<and> chapter_step 10 KEY_NPAGE (replicate 100 ''line'')
       \<lparr>start = 0, cursor_row = 1, chaps_pos = [0, 20], view = Chapter (replicate 100 ''line'')\<rparr>
     = Continue \<lparr>start = 0, cursor_row = 1, chaps_pos = [0, 21],
         view = Chapter (replicate 100 ''line'')\<rparr>
   \<and> chapter_step 10 KEY_PPAGE (replicate 100 ''line'')
       \<lparr>start = 0, cursor_row = 1, chaps_pos = [0, 20], view = Chapter (replicate 100 ''line'')\<rparr>
     = Continue \<lparr>start = 0, cursor_row = 1, chaps_pos = [0, 19],
         view = Chapter (replicate 100 ''line'')\<rparr>"
  using chapter_scroll [of "\<lparr>start = 0, cursor_row = 1, chaps_pos = [0, 20],
      view = Chapter (replicate 100 ''line'')\<rparr>" 10 "replicate 100 ''line''"]
  by (simp add: offset_def with_offset_def)

text \<open>
  No iteration of the outer loop writes to \<open>chaps_pos\<close>; a navigation key keeps the
  program in the outer loop, a switch key takes it to the inner loop. In the inner loop a
  switch key changes the view and nothing else.
\<close>

lemma toc_step_chaps_pos:
  "toc_step u zf chaps h w ch s = Continue s' \<Longrightarrow> chaps_pos s' = chaps_pos s"
  by (auto simp: toc_step_def enter_chapter_def Let_def
      split: sum.splits if_splits prod.splits)

lemma toc_step_nav_view:
  "ch \<in> set toc_nav_keys \<Longrightarrow> toc_step u zf chaps h w ch s = Continue s' \<Longrightarrow> view s' = view s"
  by (auto simp: toc_step_def toc_nav_keys_def key_lists Let_def split: sum.splits if_splits)

lemma toc_step_switch_view:
  "ch \<in> set CHAPTERTOCSWITCH_KEYS \<Longrightarrow> toc_step u zf chaps h w ch s = Continue s'
     \<Longrightarrow> \<exists>chap. view s' = Chapter chap"
  by (auto simp: toc_step_def enter_chapter_def key_lists Let_def
      split: sum.splits if_splits prod.splits)

lemma chapter_step_switch:
  "ch \<in> set CHAPTERTOCSWITCH_KEYS \<Longrightarrow> chapter_step h ch chap s = Continue s'
     \<Longrightarrow> s' = s\<lparr>view := Toc\<rparr>"
  by (auto simp: chapter_step_def key_lists split: sum.splits)

lemma run_append:
  "run u zf chaps (xs @ ys) s =
     (case run u zf chaps xs s of Continue s' \<Rightarrow> run u zf chaps ys s' | Return \<Rightarrow> Return
      | Raise e \<Rightarrow> Raise e)"
  by (induction xs arbitrary: s) (auto split: outcome.splits)

lemma run_toc_keys_frame:
  assumes "\<forall>(my, mx, k) \<in> set nav. k \<in> set toc_nav_keys"
  shows "view s = Toc \<Longrightarrow> run u zf chaps nav s = Continue s'
         \<Longrightarrow> view s' = Toc \<and> chaps_pos s' = chaps_pos s"
  using assms
proof (induction nav arbitrary: s)
  case Nil
  then show ?case by simp
next
  case (Cons x nav)
  obtain my mx k where x: "x = (my, mx, k)"
    by (cases x)
  with Cons.prems(3) have k: "k \<in> set toc_nav_keys"
    and rest: "\<forall>(my, mx, k) \<in> set nav. k \<in> set toc_nav_keys"
    by auto
  from Cons.prems(1,2) x obtain s1 where s1: "toc_step u zf chaps my mx k s = Continue s1"
      and r: "run u zf chaps nav s1 = Continue s'"
    by (auto simp: step_def split: outcome.splits)
  from toc_step_nav_view [OF k s1] Cons.prems(1) have "view s1 = Toc"
    by simp
  from Cons.IH [OF this r rest] toc_step_chaps_pos [OF s1] show ?case
    by simp
qed

text \<open>
  C8. From the chapter view, a switch key (back to the table of contents), then any
  sequence of line and page keys there, on any screen sizes, then a switch key again: when
  the program gets that far it is in a chapter view again, and \<open>chaps_pos\<close> is what it was
  before the first key, so the offset of every entry is the one reached before.
\<close>

theorem scroll_offsets_persist:
  assumes "view s = Chapter chap"
    and "k1 \<in> set CHAPTERTOCSWITCH_KEYS"
    and "\<forall>(my, mx, k) \<in> set nav. k \<in> set toc_nav_keys"
    and "k2 \<in> set CHAPTERTOCSWITCH_KEYS"
    and "run u zf chaps ((h1, w1, k1) # nav @ [(h2, w2, k2)]) s = Continue s'"
  shows "chaps_pos s' = chaps_pos s \<and> (\<exists>chap'. view s' = Chapter chap')"
proof -
  from assms(1,5) obtain s1 where s1: "chapter_step h1 k1 chap s = Continue s1"
      and r1: "run u zf chaps (nav @ [(h2, w2, k2)]) s1 = Continue s'"
    by (auto simp: step_def split: outcome.splits)
  from chapter_step_switch [OF assms(2) s1] have s1_eq: "s1 = s\<lparr>view := Toc\<rparr>" .
  from r1 obtain s2 where s2: "run u zf chaps nav s1 = Continue s2"
      and r2: "run u zf chaps [(h2, w2, k2)] s2 = Continue s'"
    by (auto simp: run_append split: outcome.splits)
  from s1_eq have "view s1 = Toc" by simp
  from run_toc_keys_frame [OF assms(3) this s2]
  have v2: "view s2 = Toc" and p2: "chaps_pos s2 = chaps_pos s1"
    by simp_all
  from r2 v2 have s': "toc_step u zf chaps h2 w2 k2 s2 = Continue s'"
    by (auto simp: step_def split: outcome.splits)
  from toc_step_chaps_pos [OF s'] p2 s1_eq have "chaps_pos s' = chaps_pos s"
    by simp
  with toc_step_switch_view [OF assms(4) s'] show ?thesis
    by simp
qed

text \<open>
  C8 on a book of two chapters: in chapter A at offset 12, back to the table of contents,
  a line down, a line up, and into chapter A again; the offset of A is still 12.
\<close>

theorem scroll_offsets_persist_witness:
  "\<exists>s'. run (\<lambda>t. t)
        [''a.html'' \<mapsto> no_soup\<lparr>body := replicate 20 (Data (''line'' @ [CHR 0x0A]))\<rparr>]
        [(''Book'', None), (''A'', Some ''a.html''), (''B'', Some ''b.html'')]
        [(5, 80, HT), (5, 80, KEY_DOWN), (5, 80, KEY_UP), (5, 80, HT)]
        \<lparr>start = 0, cursor_row = 1, chaps_pos = [0, 12, 0],
          view = Chapter (replicate 20 ''line'' @ [[]])\<rparr> = Continue s'
      \<and> chaps_pos s' = [0, 12, 0] \<and> start s' + cursor_row s' = 1
      \<and> (\<exists>chap'. view s' = Chapter chap')"
proof -
  have r: "run (\<lambda>t. t)
        [''a.html'' \<mapsto> no_soup\<lparr>body := replicate 20 (Data (''line'' @ [CHR 0x0A]))\<rparr>]
        [(''Book'', None), (''A'', Some ''a.html''), (''B'', Some ''b.html'')]
        [(5, 80, HT), (5, 80, KEY_DOWN), (5, 80, KEY_UP), (5, 80, HT)]
        \<lparr>start = 0, cursor_row = 1, chaps_pos = [0, 12, 0],
          view = Chapter (replicate 20 ''line'' @ [[]])\<rparr>
     = Continue \<lparr>start = 0, cursor_row = 1, chaps_pos = [0, 12, 0],
          view = Chapter (split_nl (textify (\<lambda>t. t)
            (replicate 20 (Data (''line'' @ [CHR 0x0A]))) (5, 80) (Cols 80)))\<rparr>"
    by (simp add: step_def chapter_step_def toc_step_def enter_chapter_def list_chaps_def
        py_index_def py_slice_def slice_bound_def getitem_def key_lists no_soup_def)
  then have "run (\<lambda>t. t)
        [''a.html'' \<mapsto> no_soup\<lparr>body := replicate 20 (Data (''line'' @ [CHR 0x0A]))\<rparr>]
        [(''Book'', None), (''A'', Some ''a.html''), (''B'', Some ''b.html'')]
        ((5, 80, HT) # [(5, 80, KEY_DOWN), (5, 80, KEY_UP)] @ [(5, 80, HT)])
        \<lparr>start = 0, cursor_row = 1, chaps_pos = [0, 12, 0],
          view = Chapter (replicate 20 ''line'' @ [[]])\<rparr>
     = Continue \<lparr>start = 0, cursor_row = 1, chaps_pos = [0, 12, 0],
          view = Chapter (split_nl (textify (\<lambda>t. t)
            (replicate 20 (Data (''line'' @ [CHR 0x0A]))) (5, 80) (Cols 80)))\<rparr>"
    by simp
  from scroll_offsets_persist [OF _ _ _ _ this] r show ?thesis
    by (simp add: toc_nav_keys_def key_lists)
qed

section \<open>Properties of the package index\<close>

text \<open>The definitions to unfold when an index is computed on a given archive.\<close>

lemmas toc_eval = table_of_contents_def and_then_def getitem_def getattr_def basedir_of_def
  dirname_def titles_def sections_def container_at_def no_soup_def strip_def isspace_def
  three_package_def three_items_def three_itemrefs_def three_navpoints_def

text \<open>
  With the package document at the top of the archive the base directory is empty, and
  the index of the archive of three chapters is the title, \<open>(One, ch1.html)\<close>,
  \<open>('', ch2.html)\<close> and \<open>(Three, ch3.html)\<close>.
\<close>

lemma three_chapters_toc:
  "table_of_contents three_chapters =
     Inr [(''Book'', None), (''One'', Some ''ch1.html''), ([], Some ''ch2.html''),
          (''Three'', Some ''ch3.html'')]"
  by (simp add: toc_eval three_chapters_def)

text \<open>
  C9 (each reading-order path gets the label that the navigation document supplies for
  it, and the empty title only when there is none: three spine items with labels for the
  first and the third give the title, \<open>(label1, path1)\<close>, \<open>('', path2)\<close> and
  \<open>(label3, path3)\<close>). \<open>table_of_contents\<close> puts \<open>basedir\<close> before every path of the
  manifest, the one of the navigation document included, but files the labels in \<open>z\<close>
  under the \<open>src\<close> of the navpoints as written: when the package document is in a
  directory no reading-order path is a key of \<open>z\<close>. For the archive of three chapters
  kept under \<open>OEBPS\<close> every entry has the empty title, the first and the third too.
\<close>

theorem labels_lost_in_directory:
  "table_of_contents in_directory =
     Inr [(''Book'', None), ([], Some ''OEBPS/ch1.html''), ([], Some ''OEBPS/ch2.html''),
          ([], Some ''OEBPS/ch3.html'')]"
  by (simp add: toc_eval in_directory_def)

text \<open>
  The output loop yields a path without a label as \<open>section.strip()\<close>: the path
  \<open>" ch1.html"\<close>, which starts with a space, is yielded as \<open>"ch1.html"\<close>.
\<close>

lemma unlabelled_path_stripped:
  "sections Map.empty ['' ch1.html''] = [([], Some ''ch1.html'')]
   \<and> table_of_contents padded_href = Inr [(''Book'', None), ([], Some ''ch1.html'')]"
  by (simp add: toc_eval padded_href_def padded_items_def)

section \<open>Properties of check_epub\<close>

text \<open>The extension is compared without regard to case, and a leading dot starts no extension.\<close>

lemma splitext_txt: "splitext ''notes.txt'' = (''notes'', ''.txt'')"
  by (simp add: splitext_def rfind_def py_slice_def slice_bound_def)

lemma check_epub_upper_case:
  "check_epub e ''dir.d/Book.EPUB'' = isfile e ''dir.d/Book.EPUB''"
proof -
  have "lower (snd (splitext ''dir.d/Book.EPUB'')) = ''.epub''"
    by code_simp
  then show ?thesis
    by (simp add: check_epub_def)
qed

lemma check_epub_hidden: "\<not> check_epub e ''.epub''"
  by (simp add: check_epub_def splitext_def rfind_def py_slice_def slice_bound_def lower_def)

text \<open>
  C10. For a path that is not a regular file with the extension \<open>.epub\<close>, compared
  without regard to case, \<open>dump_epub\<close> and \<open>curses_epub\<close> return at once: no exception,
  no archive opened, nothing printed, no key read.
\<close>

theorem not_epub_no_action:
  assumes "\<not> (isfile e path \<and> lower (snd (splitext path)) = ''.epub'')"
  shows "dump_epub e path mc = ([], None) \<and> curses_epub e path inputs = ([], Return)"
  using assms by (simp add: dump_epub_def curses_epub_def check_epub_def)

text \<open>C10 on the regular file \<open>notes.txt\<close>.\<close>

theorem not_epub_no_action_witness:
  "dump_epub \<lparr>isfile = (\<lambda>p. True), ZipFile = Map.empty, unescape = (\<lambda>t. t)\<rparr>
       ''notes.txt'' (Cols 72) = ([], None)
   \<and> curses_epub \<lparr>isfile = (\<lambda>p. True), ZipFile = Map.empty, unescape = (\<lambda>t. t)\<rparr>
       ''notes.txt'' [(24, 80, KEY_DOWN), (24, 80, HT)] = ([], Return)"
  using not_epub_no_action [of "\<lparr>isfile = (\<lambda>p. True), ZipFile = Map.empty,
      unescape = (\<lambda>t. t)\<rparr>" "''notes.txt''" "Cols 72" "[(24, 80, KEY_DOWN), (24, 80, HT)]"]
  by (simp add: splitext_txt lower_def lower_char_def)

end
